theory Spec2Isabelle
  imports Complex_Main
begin

section \<open>Python values\<close>

text \<open>
  The event log is whatever \<^verbatim>\<open>json.load\<close> returns, and every recorded event is a
  \<^verbatim>\<open>dict\<close> of JSON-representable values, so the values of the program are JSON
  values. Python's \<^verbatim>\<open>None\<close> is \<open>JNull\<close>. A \<^verbatim>\<open>dict\<close> is the list of its items
  (keys distinct). Each \<open>char\<close> of a string stands for one code point of a Python
  \<^verbatim>\<open>str\<close>. Python floats are idealised as exact rationals.
\<close>

datatype json =
    JNull
  | JBool bool
  | JInt int
  | JFloat rat
  | JStr string
  | JArr "json list"
  | JObj "(string \<times> json) list"

text \<open>Truth value of an object, as \<^verbatim>\<open>if x\<close> and \<^verbatim>\<open>not x\<close> test it.\<close>

fun truthy :: "json \<Rightarrow> bool" where
  "truthy JNull = False"
| "truthy (JBool b) = b"
| "truthy (JInt i) = (i \<noteq> 0)"
| "truthy (JFloat r) = (r \<noteq> 0)"
| "truthy (JStr s) = (s \<noteq> [])"
| "truthy (JArr xs) = (xs \<noteq> [])"
| "truthy (JObj kvs) = (kvs \<noteq> [])"

text \<open>\<^verbatim>\<open>d.get(k, default)\<close> on a dict.\<close>

definition dict_get :: "(string \<times> json) list \<Rightarrow> string \<Rightarrow> json \<Rightarrow> json" where
  "dict_get d k dflt = (case map_of d k of None \<Rightarrow> dflt | Some v \<Rightarrow> v)"

text \<open>
  The value of an operand of float arithmetic: \<^verbatim>\<open>int\<close>, \<^verbatim>\<open>float\<close> and \<^verbatim>\<open>bool\<close>
  are numbers, every other operand makes \<^verbatim>\<open>+\<close> and \<^verbatim>\<open>-\<close> raise TypeError (\<open>None\<close>).
\<close>

fun num_of :: "json \<Rightarrow> rat option" where
  "num_of (JInt i) = Some (of_int i)"
| "num_of (JFloat r) = Some r"
| "num_of (JBool b) = Some (if b then 1 else 0)"
| "num_of _ = None"

text \<open>
  What \<^verbatim>\<open>for ev in x\<close> iterates over: the elements of a list, the keys of a dict,
  the characters of a string; nothing else is iterable (\<open>None\<close>: TypeError).
\<close>

fun py_iter :: "json \<Rightarrow> json list option" where
  "py_iter (JArr xs) = Some xs"
| "py_iter (JObj kvs) = Some (map (\<lambda>kv. JStr (fst kv)) kvs)"
| "py_iter (JStr s) = Some (map (\<lambda>c. JStr [c]) s)"
| "py_iter _ = None"

text \<open>\<^verbatim>\<open>k.startswith(p)\<close>, \<^verbatim>\<open>k.split(".", 1)[1]\<close> and \<^verbatim>\<open>s.split(".")[-1]\<close>.\<close>

definition startswith :: "string \<Rightarrow> string \<Rightarrow> bool" where
  "startswith k p = (take (length p) k = p)"

definition split1_second :: "string \<Rightarrow> string option" where
  "split1_second k =
     (case dropWhile (\<lambda>c. c \<noteq> CHR ''.'') k of [] \<Rightarrow> None | _ # r \<Rightarrow> Some r)"

definition split_last :: "string \<Rightarrow> string" where
  "split_last s = rev (takeWhile (\<lambda>c. c \<noteq> CHR ''.'') (rev s))"

section \<open>Exceptions\<close>

text \<open>
  The three \<^verbatim>\<open>RuntimeError\<close>s the engine raises differ by their message only: recording
  requested during playback, playback requested during recording, playback requested
  with no recorded events. The first two are the specification's \<open>InvalidState\<close>, the
  third its \<open>EmptyLog\<close>.
\<close>

datatype msg = CannotRecordWhilePlaying | CannotPlayWhileRecording | NoRecordedEvents

datatype exn =
    RuntimeError msg
  | AttributeError
  | TypeError
  | OSError
  | JSONDecodeError
  | ControllerError

section \<open>The input library\<close>

text \<open>
  The members of the library's enumerations \<^verbatim>\<open>Key\<close> and \<^verbatim>\<open>mouse.Button\<close> are
  represented by their names; \<^verbatim>\<open>str\<close> of a member is the class name, a dot and the
  member's name. A key delivered to a hook is a member of \<^verbatim>\<open>Key\<close> or a key code,
  whose attribute \<^verbatim>\<open>char\<close> is a string or \<^verbatim>\<open>None\<close>.
\<close>

datatype button = Button string

datatype hook_key = KeyCode "string option" | KeyMember string

datatype key_arg = KeyObj string | KeyRaw json

datatype call =
    SetPosition json json
  | MousePress button
  | MouseRelease button
  | Scroll json json
  | KbPress key_arg
  | KbRelease key_arg

text \<open>
  The library is not part of the repository, so what the engine uses of it is a
  parameter: the names of the members of the two enumerations (looking up any other
  attribute name is taken to fail), and which controller calls return normally
  (a call that does not, raises and injects nothing).
\<close>

record platform =
  Key_members :: "string list"
  Button_members :: "string list"
  accepts :: "call \<Rightarrow> bool"

definition getattr_Key :: "platform \<Rightarrow> string \<Rightarrow> string option" where
  "getattr_Key P name = (if name \<in> set (Key_members P) then Some name else None)"

definition getattr_Button :: "platform \<Rightarrow> string \<Rightarrow> button \<Rightarrow> button" where
  "getattr_Button P name dflt = (if name \<in> set (Button_members P) then Button name else dflt)"

definition str_button :: "button \<Rightarrow> string" where
  "str_button b = (case b of Button n \<Rightarrow> ''Button.'' @ n)"

section \<open>The session: class RecorderPlayer\<close>

text \<open>
  The thread object carries the two arguments of \<^verbatim>\<open>play\<close> its target closes over.
  The two listeners are present or \<^verbatim>\<open>None\<close>. The state of the two controllers is the
  sequence of calls they have carried out, each with what \<^verbatim>\<open>is_suppressed()\<close> answers
  while the call is made.
\<close>

datatype thread = Thread int rat

record session =
  recording :: bool
  playing :: bool
  start_time :: "rat option"
  events :: json
  mouse_listener :: bool
  kb_listener :: bool
  play_thread :: "thread option"
  stop_play_event :: bool
  suppress_count :: int
  ctrl_calls :: "(call \<times> bool) list"

definition RecorderPlayer_init :: session where
  "RecorderPlayer_init =
     \<lparr> recording = False, playing = False, start_time = None, events = JArr [],
       mouse_listener = False, kb_listener = False, play_thread = None,
       stop_play_event = False, suppress_count = 0, ctrl_calls = [] \<rparr>"

subsection \<open>The suppression gate\<close>

text \<open>
  A computation on the session returns its result or the exception it raised, and the
  session it leaves. \<^verbatim>\<open>_suppress_events\<close> is a context manager: the counter goes up,
  the body runs, and the \<^verbatim>\<open>finally\<close> clause brings the counter down whether the body
  returned or raised.
\<close>

type_synonym 'a comp = "session \<Rightarrow> (exn + 'a) \<times> session"

definition suppress_enter :: "session \<Rightarrow> session" where
  "suppress_enter s = s\<lparr>suppress_count := suppress_count s + 1\<rparr>"

definition suppress_exit :: "session \<Rightarrow> session" where
  "suppress_exit s = s\<lparr>suppress_count := suppress_count s - 1\<rparr>"

definition suppress_events :: "'a comp \<Rightarrow> 'a comp" where
  "suppress_events body s =
     (case body (suppress_enter s) of (r, s') \<Rightarrow> (r, suppress_exit s'))"

definition is_suppressed :: "session \<Rightarrow> bool" where
  "is_suppressed s = (suppress_count s > 0)"

text \<open>A computation is balanced when it leaves the counter as it found it.\<close>

definition balanced :: "'a comp \<Rightarrow> bool" where
  "balanced body = (\<forall>s. suppress_count (snd (body s)) = suppress_count s)"

subsection \<open>Recording\<close>

text \<open>
  \<^verbatim>\<open>_time\<close>: the time since the recording started, or the integer 0 when the
  start time is \<^verbatim>\<open>None\<close> or zero. \<open>now\<close> is what \<^verbatim>\<open>time.time()\<close> returns.
\<close>

definition time_since_start :: "rat \<Rightarrow> session \<Rightarrow> json" where
  "time_since_start now s =
     (case start_time s of
        None \<Rightarrow> JInt 0
      | Some st \<Rightarrow> if st \<noteq> 0 then JFloat (now - st) else JInt 0)"

definition start_recording :: "rat \<Rightarrow> session \<Rightarrow> exn option \<times> session" where
  "start_recording now s =
     (if playing s then (Some (RuntimeError CannotRecordWhilePlaying), s)
      else (None, s\<lparr>events := JArr [], start_time := Some now, recording := True,
                    mouse_listener := True, kb_listener := True\<rparr>))"

definition stop_recording :: "session \<Rightarrow> session" where
  "stop_recording s =
     (if \<not> recording s then s
      else s\<lparr>recording := False, mouse_listener := False, kb_listener := False,
             start_time := None\<rparr>)"

text \<open>The records the five hook callbacks build.\<close>

definition mouse_move_record :: "json \<Rightarrow> int \<Rightarrow> int \<Rightarrow> json" where
  "mouse_move_record t x y =
     JObj [(''type'', JStr ''mouse_move''), (''time'', t), (''x'', JInt x), (''y'', JInt y)]"

definition mouse_click_record :: "json \<Rightarrow> int \<Rightarrow> int \<Rightarrow> button \<Rightarrow> bool \<Rightarrow> json" where
  "mouse_click_record t x y b pressed =
     JObj [(''type'', JStr ''mouse_click''), (''time'', t), (''x'', JInt x), (''y'', JInt y),
           (''button'', JStr (str_button b)), (''pressed'', JBool pressed)]"

definition mouse_scroll_record :: "json \<Rightarrow> int \<Rightarrow> int \<Rightarrow> int \<Rightarrow> int \<Rightarrow> json" where
  "mouse_scroll_record t x y dx dy =
     JObj [(''type'', JStr ''mouse_scroll''), (''time'', t), (''x'', JInt x), (''y'', JInt y),
           (''dx'', JInt dx), (''dy'', JInt dy)]"

text \<open>\<^verbatim>\<open>getattr(key, "char", str(key))\<close>: the default is taken only when the attribute is absent.\<close>

definition key_field :: "hook_key \<Rightarrow> json" where
  "key_field key =
     (case key of
        KeyCode None \<Rightarrow> JNull
      | KeyCode (Some c) \<Rightarrow> JStr c
      | KeyMember n \<Rightarrow> JStr (''Key.'' @ n))"

definition key_press_record :: "json \<Rightarrow> hook_key \<Rightarrow> json" where
  "key_press_record t key = JObj [(''type'', JStr ''key_press''), (''time'', t), (''key'', key_field key)]"

definition key_release_record :: "json \<Rightarrow> hook_key \<Rightarrow> json" where
  "key_release_record t key = JObj [(''type'', JStr ''key_release''), (''time'', t), (''key'', key_field key)]"

datatype hook_event =
    OnMove int int
  | OnClick int int button bool
  | OnScroll int int int int
  | OnPress hook_key
  | OnRelease hook_key

fun hook_record :: "json \<Rightarrow> hook_event \<Rightarrow> json" where
  "hook_record t (OnMove x y) = mouse_move_record t x y"
| "hook_record t (OnClick x y b pressed) = mouse_click_record t x y b pressed"
| "hook_record t (OnScroll x y dx dy) = mouse_scroll_record t x y dx dy"
| "hook_record t (OnPress key) = key_press_record t key"
| "hook_record t (OnRelease key) = key_release_record t key"

text \<open>
  The callbacks \<^verbatim>\<open>on_move\<close>, \<^verbatim>\<open>on_click\<close>, \<^verbatim>\<open>on_scroll\<close>, \<^verbatim>\<open>on_press\<close> and
  \<^verbatim>\<open>on_release\<close> that \<^verbatim>\<open>start_recording\<close> installs: each appends its record to
  the log while recording; \<^verbatim>\<open>append\<close> exists on lists only.
\<close>

definition on_hook :: "rat \<Rightarrow> hook_event \<Rightarrow> session \<Rightarrow> exn option \<times> session" where
  "on_hook now h s =
     (if recording s then
        (case events s of
           JArr xs \<Rightarrow> (None, s\<lparr>events := JArr (xs @ [hook_record (time_since_start now s) h])\<rparr>)
         | _ \<Rightarrow> (Some AttributeError, s))
      else (None, s))"

subsection \<open>Save and load\<close>

text \<open>
  A file that can be opened for reading holds a JSON document or something else;
  \<^verbatim>\<open>json.load\<close> returns the document or raises.
\<close>

datatype file_content = NotJson | JsonDoc json

record disk =
  files :: "string \<Rightarrow> file_content option"
  writable :: "string \<Rightarrow> bool"

definition save :: "session \<Rightarrow> disk \<Rightarrow> string \<Rightarrow> exn option \<times> disk" where
  "save s d filepath =
     (if writable d filepath
      then (None, d\<lparr>files := (files d)(filepath \<mapsto> JsonDoc (events s))\<rparr>)
      else (Some OSError, d))"

definition load :: "session \<Rightarrow> disk \<Rightarrow> string \<Rightarrow> exn option \<times> session" where
  "load s d filepath =
     (case files d filepath of
        None \<Rightarrow> (Some OSError, s)
      | Some NotJson \<Rightarrow> (Some JSONDecodeError, s)
      | Some (JsonDoc j) \<Rightarrow> (None, s\<lparr>events := j\<rparr>))"

subsection \<open>Starting and stopping playback\<close>

text \<open>
  \<^verbatim>\<open>play\<close> raises before it assigns any field, returns at once when the session is
  playing already, and else clears the cancellation signal, sets the playing flag and
  starts a thread on the target with its two arguments.
\<close>

definition play :: "session \<Rightarrow> int \<Rightarrow> rat \<Rightarrow> exn option \<times> session" where
  "play s repeat_count interval =
     (if recording s then (Some (RuntimeError CannotPlayWhileRecording), s)
      else if \<not> truthy (events s) then (Some (RuntimeError NoRecordedEvents), s)
      else if playing s then (None, s)
      else (None, s\<lparr>stop_play_event := False, playing := True,
                    play_thread := Some (Thread repeat_count interval)\<rparr>))"

text \<open>
  \<^verbatim>\<open>stop_play\<close> joins the playback thread for at most a second unless it runs on that
  thread itself. \<open>joined\<close> says whether the thread ended within that second; then its
  \<^verbatim>\<open>finally\<close> clause has run.
\<close>

definition join_thread :: "bool \<Rightarrow> bool \<Rightarrow> session \<Rightarrow> session" where
  "join_thread on_play_thread joined s =
     (if play_thread s \<noteq> None \<and> \<not> on_play_thread \<and> joined then s\<lparr>playing := False\<rparr> else s)"

definition stop_play :: "bool \<Rightarrow> bool \<Rightarrow> session \<Rightarrow> session" where
  "stop_play on_play_thread joined s =
     (let s1 = s\<lparr>stop_play_event := True\<rparr>;
          s2 = join_thread on_play_thread joined s1;
          s3 = s2\<lparr>playing := False\<rparr>
      in s3\<lparr>stop_play_event := False\<rparr>)"

section \<open>Performing an event\<close>

definition ok :: "unit comp" where
  "ok s = (Inr (), s)"

definition raise :: "exn \<Rightarrow> unit comp" where
  "raise e s = (Inl e, s)"

text \<open>A controller call: carried out, or refused by the library with an exception.\<close>

definition ctrl :: "platform \<Rightarrow> call \<Rightarrow> unit comp" where
  "ctrl P c s =
     (if accepts P c then (Inr (), s\<lparr>ctrl_calls := ctrl_calls s @ [(c, is_suppressed s)]\<rparr>)
      else (Inl ControllerError, s))"

text \<open>One statement after another: an exception of the first skips the second.\<close>

definition then_do :: "unit comp \<Rightarrow> unit comp \<Rightarrow> unit comp" where
  "then_do m k s = (case m s of (Inl e, s') \<Rightarrow> (Inl e, s') | (Inr _, s') \<Rightarrow> k s')"

text \<open>\<^verbatim>\<open>try: m except Exception: pass\<close>\<close>

definition swallow :: "unit comp \<Rightarrow> unit comp" where
  "swallow m s = (Inr (), snd (m s))"

text \<open>\<^verbatim>\<open>if x is not None and y is not None: self.mouse_ctrl.position = (x, y)\<close>\<close>

definition set_position :: "platform \<Rightarrow> json \<Rightarrow> json \<Rightarrow> unit comp" where
  "set_position P x y = (if x \<noteq> JNull \<and> y \<noteq> JNull then ctrl P (SetPosition x y) else ok)"

text \<open>\<^verbatim>\<open>name = btn_str.split(".")[-1] if btn_str else "left"\<close>; only a string has \<^verbatim>\<open>split\<close>.\<close>

definition button_name :: "json \<Rightarrow> exn + string" where
  "button_name btn_str =
     (if truthy btn_str
      then (case btn_str of JStr b \<Rightarrow> Inr (split_last b) | _ \<Rightarrow> Inl AttributeError)
      else Inr ''left'')"

text \<open>
  The first attempt of \<^verbatim>\<open>_press_key_from_string\<close> and \<^verbatim>\<open>_release_key_from_string\<close>,
  which differ in the controller call \<open>op\<close> only: a string that starts with \<^verbatim>\<open>Key.\<close>
  is looked up in \<^verbatim>\<open>Key\<close>. The result says whether the function returned from inside
  the \<^verbatim>\<open>try\<close>; an exception of the lookup or of the call is caught and falls through.
\<close>

definition named_attempt :: "(key_arg \<Rightarrow> call) \<Rightarrow> platform \<Rightarrow> json \<Rightarrow> session \<Rightarrow> bool \<times> session" where
  "named_attempt op P k s =
     (case k of
        JStr str \<Rightarrow>
          if startswith str ''Key.'' then
            (case split1_second str of
               None \<Rightarrow> (False, s)
             | Some name \<Rightarrow>
                 (case getattr_Key P name of
                    None \<Rightarrow> (False, s)
                  | Some key_obj \<Rightarrow>
                      (case suppress_events (ctrl P (op (KeyObj key_obj))) s of
                         (Inr _, s') \<Rightarrow> (True, s')
                       | (Inl _, s') \<Rightarrow> (False, s'))))
          else (False, s)
      | _ \<Rightarrow> (False, s))"

text \<open>A string of at least two characters between single quotes, without them.\<close>

definition quoted :: "json \<Rightarrow> string option" where
  "quoted k =
     (case k of
        JStr str \<Rightarrow>
          if length str \<ge> 2 \<and> hd str = CHR 0x27 \<and> last str = CHR 0x27
          then Some (butlast (tl str)) else None
      | _ \<Rightarrow> None)"

definition key_from_string :: "(key_arg \<Rightarrow> call) \<Rightarrow> platform \<Rightarrow> json \<Rightarrow> unit comp" where
  "key_from_string op P k s =
     (if \<not> truthy k then (Inr (), s)
      else
        (case named_attempt op P k s of
           (returned, s1) \<Rightarrow>
             if returned then (Inr (), s1)
             else
               (case quoted k of
                  Some ch \<Rightarrow> suppress_events (swallow (ctrl P (op (KeyRaw (JStr ch))))) s1
                | None \<Rightarrow> swallow (suppress_events (ctrl P (op (KeyRaw k)))) s1)))"

definition press_key_from_string :: "platform \<Rightarrow> json \<Rightarrow> unit comp" where
  "press_key_from_string = key_from_string KbPress"

definition release_key_from_string :: "platform \<Rightarrow> json \<Rightarrow> unit comp" where
  "release_key_from_string = key_from_string KbRelease"

text \<open>\<^verbatim>\<open>_perform_event\<close>; only a dict has \<^verbatim>\<open>get\<close>.\<close>

definition perform_event :: "platform \<Rightarrow> json \<Rightarrow> unit comp" where
  "perform_event P ev =
     (case ev of
        JObj d \<Rightarrow>
          (let t = dict_get d ''type'' JNull;
               x = dict_get d ''x'' JNull;
               y = dict_get d ''y'' JNull
           in
             if t = JStr ''mouse_move'' then
               suppress_events (set_position P x y)
             else if t = JStr ''mouse_click'' then
               (let btn_str = dict_get d ''button'' (JStr []);
                    pressed = dict_get d ''pressed'' (JBool True)
                in case button_name btn_str of
                     Inl e \<Rightarrow> raise e
                   | Inr name \<Rightarrow>
                       (let btn_obj = getattr_Button P name (Button ''left'')
                        in suppress_events
                             (then_do (set_position P x y)
                                (if truthy pressed then ctrl P (MousePress btn_obj)
                                 else ctrl P (MouseRelease btn_obj)))))
             else if t = JStr ''mouse_scroll'' then
               (let dx = dict_get d ''dx'' (JInt 0);
                    dy = dict_get d ''dy'' (JInt 0)
                in suppress_events (then_do (set_position P x y) (ctrl P (Scroll dx dy))))
             else if t = JStr ''key_press'' then
               press_key_from_string P (dict_get d ''key'' JNull)
             else if t = JStr ''key_release'' then
               release_key_from_string P (dict_get d ''key'' JNull)
             else ok)
      | _ \<Rightarrow> raise AttributeError)"

section \<open>The events of the data model and their records\<close>

text \<open>
  An event of the data model is what one hook callback receives, with the time its
  record gets: a key that has a character is a key code with that character, a named
  key is a member of \<^verbatim>\<open>Key\<close>. Its record is the one the callback builds.
\<close>

datatype KeyToken = CharKey char | NamedKey string

datatype Event =
    MouseMove rat int int
  | MouseClick rat int int button bool
  | MouseScroll rat int int int int
  | KeyPress rat KeyToken
  | KeyRelease rat KeyToken

fun hook_key_of :: "KeyToken \<Rightarrow> hook_key" where
  "hook_key_of (CharKey c) = KeyCode (Some [c])"
| "hook_key_of (NamedKey n) = KeyMember n"

fun hook_of :: "Event \<Rightarrow> hook_event" where
  "hook_of (MouseMove t x y) = OnMove x y"
| "hook_of (MouseClick t x y b pressed) = OnClick x y b pressed"
| "hook_of (MouseScroll t x y dx dy) = OnScroll x y dx dy"
| "hook_of (KeyPress t k) = OnPress (hook_key_of k)"
| "hook_of (KeyRelease t k) = OnRelease (hook_key_of k)"

fun time_of :: "Event \<Rightarrow> rat" where
  "time_of (MouseMove t x y) = t"
| "time_of (MouseClick t x y b pressed) = t"
| "time_of (MouseScroll t x y dx dy) = t"
| "time_of (KeyPress t k) = t"
| "time_of (KeyRelease t k) = t"

definition encode :: "Event \<Rightarrow> json" where
  "encode e = hook_record (JFloat (time_of e)) (hook_of e)"






section \<open>The playback thread\<close>

text \<open>
  The thread reads the clock and polls the cancellation signal, which other threads
  set; what it reads is given by the environment: the value of its \<open>n\<close>-th call of
  \<^verbatim>\<open>time.time()\<close> and of its \<open>n\<close>-th call of \<^verbatim>\<open>is_set()\<close>. The probe counts the
  calls made, and keeps two logs: every performed event with the clock reading that
  ended its wait, and every duration slept.
\<close>

record env =
  clock :: "nat \<Rightarrow> rat"
  stop_is_set :: "nat \<Rightarrow> bool"

record probe =
  n_clock :: nat
  n_stop :: nat
  fired :: "(json \<times> rat) list"
  sleeps :: "rat list"

definition time_time :: "env \<Rightarrow> probe \<Rightarrow> rat \<times> probe" where
  "time_time E pr = (clock E (n_clock pr), pr\<lparr>n_clock := Suc (n_clock pr)\<rparr>)"

definition is_set :: "env \<Rightarrow> probe \<Rightarrow> bool \<times> probe" where
  "is_set E pr = (stop_is_set E (n_stop pr), pr\<lparr>n_stop := Suc (n_stop pr)\<rparr>)"

definition sleep :: "rat \<Rightarrow> probe \<Rightarrow> probe" where
  "sleep d pr = pr\<lparr>sleeps := sleeps pr @ [d]\<rparr>"

text \<open>\<^verbatim>\<open>ev.get("time", 0)\<close> as an operand of the arithmetic on the clock.\<close>

definition event_time :: "json \<Rightarrow> exn + rat" where
  "event_time ev =
     (case ev of
        JObj d \<Rightarrow> (case num_of (dict_get d ''time'' (JInt 0)) of
                     None \<Rightarrow> Inl TypeError
                   | Some t \<Rightarrow> Inr t)
      | _ \<Rightarrow> Inl AttributeError)"

text \<open>
  The responsive wait: \<open>None\<close> as the whole result is a wait that never ends, because
  the clock never reaches the target and nobody cancels.
\<close>

datatype waited = Cancelled | Reached rat

partial_function (option) wait_until :: "env \<Rightarrow> rat \<Rightarrow> probe \<Rightarrow> (waited \<times> probe) option" where
  "wait_until E target_time pr =
     (case is_set E pr of
        (stop, pr1) \<Rightarrow>
          if stop then Some (Cancelled, pr1)
          else
            (case time_time E pr1 of
               (now, pr2) \<Rightarrow>
                 (let remaining = target_time - now
                  in if remaining \<le> 0 then Some (Reached now, pr2)
                     else wait_until E target_time (sleep (min (1 / 100) remaining) pr2))))"

text \<open>How the thread leaves a loop: by its end, by \<^verbatim>\<open>return\<close>, or by an exception.\<close>

datatype exit = Finished | Returned | Raised exn

text \<open>\<^verbatim>\<open>if base_time is None: base_time = time.time() - ev.get("time", 0)\<close>\<close>

definition cycle_base :: "env \<Rightarrow> rat option \<Rightarrow> json \<Rightarrow> probe \<Rightarrow> (exn + rat) \<times> probe" where
  "cycle_base E base_time ev pr =
     (case base_time of
        Some b \<Rightarrow> (Inr b, pr)
      | None \<Rightarrow>
          (case time_time E pr of
             (now, pr1) \<Rightarrow>
               (case event_time ev of
                  Inl e \<Rightarrow> (Inl e, pr1)
                | Inr t \<Rightarrow> (Inr (now - t), pr1))))"

text \<open>The loop over the events of one cycle, from the value \<open>base_time\<close> has.\<close>

fun for_events ::
  "env \<Rightarrow> platform \<Rightarrow> rat option \<Rightarrow> json list \<Rightarrow> probe \<Rightarrow> session \<Rightarrow> (exit \<times> probe \<times> session) option" where
  "for_events E P base_time [] pr s = Some (Finished, pr, s)"
| "for_events E P base_time (ev # evs) pr s =
     (case is_set E pr of
        (stop, pr1) \<Rightarrow>
          if stop then Some (Returned, pr1, s)
          else
            (case cycle_base E base_time ev pr1 of
               (Inl e, pr2) \<Rightarrow> Some (Raised e, pr2, s)
             | (Inr base, pr2) \<Rightarrow>
                 (case event_time ev of
                    Inl e \<Rightarrow> Some (Raised e, pr2, s)
                  | Inr t \<Rightarrow>
                      (case wait_until E (base + t) pr2 of
                         None \<Rightarrow> None
                       | Some (Cancelled, pr3) \<Rightarrow> Some (Returned, pr3, s)
                       | Some (Reached now, pr3) \<Rightarrow>
                           for_events E P (Some base) evs
                             (pr3\<lparr>fired := fired pr3 @ [(ev, now)]\<rparr>)
                             (snd (swallow (perform_event P ev) s))))))"

text \<open>The pause between two cycles; the result says whether it ran to its end.\<close>

partial_function (option) interval_wait :: "env \<Rightarrow> rat \<Rightarrow> probe \<Rightarrow> (bool \<times> probe) option" where
  "interval_wait E endt pr =
     (case time_time E pr of
        (now, pr1) \<Rightarrow>
          if now < endt then
            (case is_set E pr1 of
               (stop, pr2) \<Rightarrow>
                 if stop then Some (False, pr2)
                 else interval_wait E endt (sleep (1 / 20) pr2))
          else Some (True, pr1))"

definition after_cycle :: "env \<Rightarrow> rat \<Rightarrow> probe \<Rightarrow> (bool \<times> probe) option" where
  "after_cycle E interval pr =
     (if interval > 0
      then (case time_time E pr of (now, pr1) \<Rightarrow> interval_wait E (now + interval) pr1)
      else Some (True, pr))"

text \<open>
  The loop over the cycles. Every cycle reads the log of the session again and starts
  with no base time.
\<close>

partial_function (option) while_cycles ::
  "env \<Rightarrow> platform \<Rightarrow> int \<Rightarrow> rat \<Rightarrow> int \<Rightarrow> probe \<Rightarrow> session \<Rightarrow> (exit \<times> probe \<times> session) option" where
  "while_cycles E P repeat_count interval cycles_done pr s =
     (if repeat_count \<le> 0 \<or> cycles_done < repeat_count then
        (case py_iter (events s) of
           None \<Rightarrow> Some (Raised TypeError, pr, s)
         | Some evs \<Rightarrow>
             (case for_events E P None evs pr s of
                None \<Rightarrow> None
              | Some (Finished, pr1, s1) \<Rightarrow>
                  (case after_cycle E interval pr1 of
                     None \<Rightarrow> None
                   | Some (elapsed, pr2) \<Rightarrow>
                       if elapsed
                       then while_cycles E P repeat_count interval (cycles_done + 1) pr2 s1
                       else Some (Returned, pr2, s1))
              | Some (Returned, pr1, s1) \<Rightarrow> Some (Returned, pr1, s1)
              | Some (Raised e, pr1, s1) \<Rightarrow> Some (Raised e, pr1, s1)))
      else Some (Finished, pr, s))"

text \<open>The thread's target: the loop inside \<^verbatim>\<open>try\<close>, and the \<^verbatim>\<open>finally\<close> clause.\<close>

definition target ::
  "env \<Rightarrow> platform \<Rightarrow> int \<Rightarrow> rat \<Rightarrow> probe \<Rightarrow> session \<Rightarrow> (exit \<times> probe \<times> session) option" where
  "target E P repeat_count interval pr s =
     (case while_cycles E P repeat_count interval 0 pr s of
        None \<Rightarrow> None
      | Some (r, pr', s') \<Rightarrow> Some (r, pr', s'\<lparr>playing := False\<rparr>))"

declare wait_until.simps [code] interval_wait.simps [code] while_cycles.simps [code]

definition probe_init :: probe where
  "probe_init = \<lparr> n_clock = 0, n_stop = 0, fired = [], sleeps = [] \<rparr>"

section \<open>The states of a session\<close>

text \<open>
  A session starts as the constructor leaves it and changes by the calls of its
  methods, by the hook callbacks, and by the playback thread, which performs events
  and clears the playing flag when it ends.
\<close>

inductive reachable :: "session \<Rightarrow> bool" where
  init: "reachable RecorderPlayer_init"
| start_recording: "reachable s \<Longrightarrow> reachable (snd (start_recording now s))"
| stop_recording: "reachable s \<Longrightarrow> reachable (stop_recording s)"
| on_hook: "reachable s \<Longrightarrow> reachable (snd (on_hook now h s))"
| load: "reachable s \<Longrightarrow> reachable (snd (load s d filepath))"
| play: "reachable s \<Longrightarrow> reachable (snd (play s repeat_count interval))"
| stop_play: "reachable s \<Longrightarrow> reachable (stop_play on_play_thread joined s)"
| perform: "reachable s \<Longrightarrow> reachable (snd (perform_event P ev s))"
| thread_exit: "reachable s \<Longrightarrow> reachable (s\<lparr>playing := False\<rparr>)"

text \<open>
  What performing an event leaves alone: everything but the log of the controllers
  (and the counter, while a scope is open).
\<close>

definition keeps :: "session \<Rightarrow> session \<Rightarrow> bool" where
  "keeps s s' =
     (recording s' = recording s \<and> playing s' = playing s \<and> start_time s' = start_time s \<and>
      events s' = events s \<and> play_thread s' = play_thread s \<and>
      stop_play_event s' = stop_play_event s \<and> suppress_count s' = suppress_count s)"

definition frame :: "'a comp \<Rightarrow> bool" where
  "frame body = (\<forall>s. keeps s (snd (body s)))"

text \<open>
  The calls a computation adds to the log of the controllers are all made while
  \<^verbatim>\<open>is_suppressed()\<close> holds: \<open>inside\<close> for a body that starts within a scope,
  \<open>scoped\<close> for a computation that starts with a counter that is not negative.
\<close>

definition suppressed_calls :: "session \<Rightarrow> session \<Rightarrow> bool" where
  "suppressed_calls s s' = (\<exists>new. ctrl_calls s' = ctrl_calls s @ new \<and> list_all snd new)"

definition inside :: "'a comp \<Rightarrow> bool" where
  "inside body = (\<forall>s. is_suppressed s \<longrightarrow> suppressed_calls s (snd (body s)))"

definition scoped :: "'a comp \<Rightarrow> bool" where
  "scoped body = (\<forall>s. 0 \<le> suppress_count s \<longrightarrow> suppressed_calls s (snd (body s)))"

text \<open>
  A platform for concrete runs: a few members of each enumeration, and controllers
  that carry out a mouse call with numbers and a key call with a member of \<^verbatim>\<open>Key\<close>
  or a string of one character, and refuse every other call.
\<close>

fun key_arg_ok :: "key_arg \<Rightarrow> bool" where
  "key_arg_ok (KeyObj n) = True"
| "key_arg_ok (KeyRaw (JStr s)) = (length s = 1)"
| "key_arg_ok (KeyRaw _) = False"

fun example_accepts :: "call \<Rightarrow> bool" where
  "example_accepts (SetPosition x y) = (num_of x \<noteq> None \<and> num_of y \<noteq> None)"
| "example_accepts (Scroll dx dy) = (num_of dx \<noteq> None \<and> num_of dy \<noteq> None)"
| "example_accepts (MousePress b) = True"
| "example_accepts (MouseRelease b) = True"
| "example_accepts (KbPress k) = key_arg_ok k"
| "example_accepts (KbRelease k) = key_arg_ok k"

definition example_platform :: platform where
  "example_platform =
     \<lparr> Key_members = [''space'', ''shift'', ''enter'', ''esc'', ''f8''],
       Button_members = [''unknown'', ''left'', ''middle'', ''right''],
       accepts = example_accepts \<rparr>"





text \<open>
  Environments and a log for concrete runs: a clock that advances by a quarter of a
  second from one reading to the next, with nobody cancelling, or with a cancellation
  that the third poll and every later one see; a log of a move at time 0 and a key
  press half a second later, in a session that has recorded it and in one that plays
  it.
\<close>

definition example_env :: env where
  "example_env = \<lparr> clock = (\<lambda>n. of_nat n / 4), stop_is_set = (\<lambda>n. False) \<rparr>"

definition cancelling_env :: env where
  "cancelling_env = \<lparr> clock = (\<lambda>n. of_nat n / 4), stop_is_set = (\<lambda>n. 2 \<le> n) \<rparr>"

definition example_log :: "json list" where
  "example_log = [encode (MouseMove 0 10 10), encode (KeyPress (1 / 2) (CharKey CHR ''a''))]"


definition example_session :: session where
  "example_session = RecorderPlayer_init\<lparr>events := JArr example_log, playing := True\<rparr>"

section \<open>What performing an event leaves alone\<close>

lemma keeps_refl: "keeps s s" by (simp add: keeps_def)
lemma keeps_trans: "keeps s s1 \<Longrightarrow> keeps s1 s2 \<Longrightarrow> keeps s s2" by (simp add: keeps_def)
lemma frameD: "frame body \<Longrightarrow> keeps s (snd (body s))" by (simp add: frame_def)

lemma frame_ok: "frame ok" by (simp add: frame_def keeps_def ok_def)
lemma frame_raise: "frame (raise e)" by (simp add: frame_def keeps_def raise_def)
lemma frame_ctrl: "frame (ctrl P c)" by (simp add: frame_def keeps_def ctrl_def)
lemma frame_swallow: "frame m \<Longrightarrow> frame (swallow m)" by (simp add: frame_def swallow_def)

lemma frame_then_do:
  assumes "frame m" "frame k" shows "frame (then_do m k)"
  unfolding frame_def
proof
  fix s
  obtain r s1 where ms: "m s = (r, s1)" by (cases "m s")
  have k1: "keeps s s1" using frameD[OF assms(1), of s] ms by simp
  show "keeps s (snd (then_do m k s))"
  proof (cases r)
    case (Inl e)
    then show ?thesis using ms k1 by (simp add: then_do_def)
  next
    case (Inr u)
    then show ?thesis using ms keeps_trans[OF k1 frameD[OF assms(2), of s1]]
      by (simp add: then_do_def)
  qed
qed

lemma frame_suppress_events:
  assumes "frame body" shows "frame (suppress_events body)"
  unfolding frame_def
proof
  fix s
  obtain r s1 where b: "body (suppress_enter s) = (r, s1)" by (cases "body (suppress_enter s)")
  have "keeps (suppress_enter s) s1" using frameD[OF assms, of "suppress_enter s"] b by simp
  then show "keeps s (snd (suppress_events body s))"
    using b by (simp add: suppress_events_def keeps_def suppress_enter_def suppress_exit_def)
qed

lemma frame_set_position: "frame (set_position P x y)"
  by (simp add: set_position_def frame_ok frame_ctrl)

lemma keeps_named_attempt: "keeps s (snd (named_attempt op P k s))"
proof -
  have *: "keeps s (snd (suppress_events (ctrl P c) s))" for c
    using frameD[OF frame_suppress_events[OF frame_ctrl]] .
  show ?thesis
    unfolding named_attempt_def
    by (auto simp: keeps_refl split: json.splits option.splits prod.splits sum.splits)
       (use * in \<open>(metis snd_conv)+\<close>)
qed

lemma frame_key_from_string: "frame (key_from_string op P k)"
  unfolding frame_def
proof
  fix s
  obtain b s1 where n: "named_attempt op P k s = (b, s1)" by (cases "named_attempt op P k s")
  have k1: "keeps s s1" using keeps_named_attempt[of s op P k] n by simp
  have a: "keeps s1 (snd (suppress_events (swallow (ctrl P c)) s1))" for c
    by (rule frameD[OF frame_suppress_events[OF frame_swallow[OF frame_ctrl]]])
  have b: "keeps s1 (snd (swallow (suppress_events (ctrl P c)) s1))" for c
    by (rule frameD[OF frame_swallow[OF frame_suppress_events[OF frame_ctrl]]])
  show "keeps s (snd (key_from_string op P k s))"
    using n k1 keeps_trans[OF k1 a] keeps_trans[OF k1 b]
    by (simp add: key_from_string_def keeps_refl split: option.splits)
qed

lemma frame_perform_event: "frame (perform_event P ev)"
  unfolding perform_event_def press_key_from_string_def release_key_from_string_def
  by (simp add: Let_def frame_ok frame_raise frame_ctrl frame_then_do frame_suppress_events
      frame_set_position frame_key_from_string split: json.splits sum.splits)

lemma balanced_frame: "frame body \<Longrightarrow> balanced body"
  by (simp add: frame_def balanced_def keeps_def)

lemma reachable_inv: "reachable s \<Longrightarrow> \<not> stop_play_event s \<and> suppress_count s = 0"
proof (induction rule: reachable.induct)
  case init
  then show ?case by (simp add: RecorderPlayer_init_def)
next
  case (perform s P ev)
  then show ?case using frameD[OF frame_perform_event, of s P ev] by (simp add: keeps_def)
qed (auto simp: start_recording_def stop_recording_def on_hook_def load_def play_def stop_play_def
      join_thread_def Let_def split: json.splits option.splits file_content.splits)

lemma suppressed_calls_refl: "suppressed_calls s s"
  by (simp add: suppressed_calls_def)

lemma suppressed_calls_trans:
  "suppressed_calls s s1 \<Longrightarrow> suppressed_calls s1 s2 \<Longrightarrow> suppressed_calls s s2"
  by (auto simp: suppressed_calls_def)

lemma insideD: "inside body \<Longrightarrow> is_suppressed s \<Longrightarrow> suppressed_calls s (snd (body s))"
  by (simp add: inside_def)

lemma scopedD: "scoped body \<Longrightarrow> 0 \<le> suppress_count s \<Longrightarrow> suppressed_calls s (snd (body s))"
  by (simp add: scoped_def)

lemma inside_ok: "inside ok" by (simp add: inside_def ok_def suppressed_calls_refl)
lemma inside_raise: "inside (raise e)" by (simp add: inside_def raise_def suppressed_calls_refl)
lemma inside_ctrl: "inside (ctrl P c)"
  by (simp add: inside_def ctrl_def suppressed_calls_def)
lemma inside_swallow: "inside m \<Longrightarrow> inside (swallow m)" by (simp add: inside_def swallow_def)
lemma inside_set_position: "inside (set_position P x y)"
  by (simp add: set_position_def inside_ok inside_ctrl)

lemma inside_then_do:
  assumes "inside m" "frame m" "inside k" shows "inside (then_do m k)"
  unfolding inside_def
proof (intro allI impI)
  fix s assume sup: "is_suppressed s"
  obtain r s1 where ms: "m s = (r, s1)" by (cases "m s")
  have c1: "suppressed_calls s s1" using insideD[OF assms(1) sup] ms by simp
  have "keeps s s1" using frameD[OF assms(2), of s] ms by simp
  then have sup1: "is_suppressed s1" using sup by (simp add: keeps_def is_suppressed_def)
  show "suppressed_calls s (snd (then_do m k s))"
  proof (cases r)
    case (Inl e)
    then show ?thesis using ms c1 by (simp add: then_do_def)
  next
    case (Inr u)
    then show ?thesis using ms suppressed_calls_trans[OF c1 insideD[OF assms(3) sup1]]
      by (simp add: then_do_def)
  qed
qed

lemma scoped_suppress_events:
  assumes "inside body" shows "scoped (suppress_events body)"
  unfolding scoped_def
proof (intro allI impI)
  fix s :: session assume nn: "0 \<le> suppress_count s"
  obtain r s1 where b: "body (suppress_enter s) = (r, s1)" by (cases "body (suppress_enter s)")
  have "is_suppressed (suppress_enter s)" using nn by (simp add: is_suppressed_def suppress_enter_def)
  from insideD[OF assms this] b have "suppressed_calls (suppress_enter s) s1" by simp
  then show "suppressed_calls s (snd (suppress_events body s))"
    using b by (simp add: suppress_events_def suppressed_calls_def suppress_enter_def suppress_exit_def)
qed

lemma scoped_swallow: "scoped m \<Longrightarrow> scoped (swallow m)" by (simp add: scoped_def swallow_def)
lemma scoped_ok: "scoped ok" by (simp add: scoped_def ok_def suppressed_calls_refl)
lemma scoped_raise: "scoped (raise e)" by (simp add: scoped_def raise_def suppressed_calls_refl)

lemma suppressed_calls_named_attempt:
  assumes "0 \<le> suppress_count s"
  shows "suppressed_calls s (snd (named_attempt op P k s))"
proof -
  have *: "suppressed_calls s (snd (suppress_events (ctrl P c) s))" for c
    using scopedD[OF scoped_suppress_events[OF inside_ctrl] assms] .
  have **: "suppress_events (ctrl P c) s = (r, s') \<Longrightarrow> suppressed_calls s s'" for c r s'
    using *[of c] by simp
  show ?thesis
    unfolding named_attempt_def
    by (auto simp: suppressed_calls_refl split: json.splits option.splits prod.splits sum.splits dest: **)
qed

lemma scoped_key_from_string: "scoped (key_from_string op P k)"
  unfolding scoped_def
proof (intro allI impI)
  fix s :: session assume nn: "0 \<le> suppress_count s"
  obtain b s1 where n: "named_attempt op P k s = (b, s1)" by (cases "named_attempt op P k s")
  have c1: "suppressed_calls s s1" using suppressed_calls_named_attempt[OF nn, of op P k] n by simp
  have "keeps s s1" using keeps_named_attempt[of s op P k] n by simp
  then have nn1: "0 \<le> suppress_count s1" using nn by (simp add: keeps_def)
  have a: "suppressed_calls s1 (snd (suppress_events (swallow (ctrl P c)) s1))" for c
    by (rule scopedD[OF scoped_suppress_events[OF inside_swallow[OF inside_ctrl]] nn1])
  have b: "suppressed_calls s1 (snd (swallow (suppress_events (ctrl P c)) s1))" for c
    by (rule scopedD[OF scoped_swallow[OF scoped_suppress_events[OF inside_ctrl]] nn1])
  show "suppressed_calls s (snd (key_from_string op P k s))"
    using n c1 suppressed_calls_trans[OF c1 a] suppressed_calls_trans[OF c1 b]
    by (simp add: key_from_string_def suppressed_calls_refl split: option.splits)
qed

lemma scoped_perform_event: "scoped (perform_event P ev)"
  unfolding perform_event_def press_key_from_string_def release_key_from_string_def
  by (simp add: Let_def scoped_ok scoped_raise scoped_suppress_events inside_then_do inside_ctrl
      inside_set_position frame_set_position scoped_key_from_string split: json.splits sum.splits)

section \<open>The session interface\<close>

text \<open>
  Claim C3. The two engines exclude each other: while the session is playing,
  \<^verbatim>\<open>start_recording\<close> raises the error for recording during playback and leaves the
  session as it was, so recording does not start; while the session is recording,
  \<^verbatim>\<open>play\<close> raises the error for playback during recording and leaves the session as
  it was, so playback does not start.
\<close>

theorem mutual_exclusion:
  "(playing s \<longrightarrow> start_recording now s = (Some (RuntimeError CannotRecordWhilePlaying), s)) \<and>
   (recording s \<longrightarrow> play s repeat_count interval = (Some (RuntimeError CannotPlayWhileRecording), s))"
  by (simp add: start_recording_def play_def)

theorem mutual_exclusion_witness:
  "playing (RecorderPlayer_init\<lparr>playing := True\<rparr>) \<and>
   start_recording 5 (RecorderPlayer_init\<lparr>playing := True\<rparr>) =
     (Some (RuntimeError CannotRecordWhilePlaying), RecorderPlayer_init\<lparr>playing := True\<rparr>) \<and>
   recording (RecorderPlayer_init\<lparr>recording := True\<rparr>) \<and>
   play (RecorderPlayer_init\<lparr>recording := True\<rparr>) 1 0 =
     (Some (RuntimeError CannotPlayWhileRecording), RecorderPlayer_init\<lparr>recording := True\<rparr>)"
  using mutual_exclusion [of "RecorderPlayer_init\<lparr>playing := True\<rparr>" 5]
    mutual_exclusion [of "RecorderPlayer_init\<lparr>recording := True\<rparr>" _ 1 0]
  by simp

text \<open>
  Claim C4. On a session that is not recording and whose log is the empty list,
  \<^verbatim>\<open>play\<close> raises the error for an empty log and the session is unchanged: the playing
  flag, the cancellation signal, the log and the thread are what they were.
\<close>

theorem empty_log_guard:
  "\<not> recording s \<Longrightarrow> events s = JArr [] \<Longrightarrow>
   play s repeat_count interval = (Some (RuntimeError NoRecordedEvents), s)"
  by (simp add: play_def)

theorem empty_log_guard_witness:
  "\<not> recording RecorderPlayer_init \<and> events RecorderPlayer_init = JArr [] \<and>
   play RecorderPlayer_init 3 (1 / 2) = (Some (RuntimeError NoRecordedEvents), RecorderPlayer_init)"
proof -
  have a: "\<not> recording RecorderPlayer_init" by (simp add: RecorderPlayer_init_def)
  have b: "events RecorderPlayer_init = JArr []" by (simp add: RecorderPlayer_init_def)
  show ?thesis using a b empty_log_guard [OF a b, of 3 "1 / 2"] by simp
qed

text \<open>
  Claim C10. \<^verbatim>\<open>save\<close> and \<^verbatim>\<open>load\<close> look at no flag of the session: whatever the state,
  \<^verbatim>\<open>load\<close> of a file that holds a JSON document replaces the log by that document,
  \<^verbatim>\<open>save\<close> to a writable path writes the current log, and neither raises one of the
  engine's state errors.
\<close>

theorem save_load_unguarded:
  "(files d filepath = Some (JsonDoc j) \<longrightarrow> load s d filepath = (None, s\<lparr>events := j\<rparr>)) \<and>
   (writable d filepath \<longrightarrow>
      save s d filepath = (None, d\<lparr>files := (files d)(filepath \<mapsto> JsonDoc (events s))\<rparr>)) \<and>
   fst (load s d filepath) \<noteq> Some (RuntimeError m) \<and>
   fst (save s d filepath) \<noteq> Some (RuntimeError m)"
  by (simp add: load_def save_def split: option.splits file_content.splits)

theorem save_load_unguarded_witness:
  "playing (RecorderPlayer_init\<lparr>playing := True, recording := True\<rparr>) \<and>
   recording (RecorderPlayer_init\<lparr>playing := True, recording := True\<rparr>) \<and>
   load (RecorderPlayer_init\<lparr>playing := True, recording := True\<rparr>)
        \<lparr>files = (\<lambda>p. Some (JsonDoc (JInt 7))), writable = (\<lambda>p. True)\<rparr> ''a.rec'' =
     (None, RecorderPlayer_init\<lparr>playing := True, recording := True, events := JInt 7\<rparr>) \<and>
   fst (save (RecorderPlayer_init\<lparr>playing := True, recording := True\<rparr>)
        \<lparr>files = (\<lambda>p. Some (JsonDoc (JInt 7))), writable = (\<lambda>p. True)\<rparr> ''a.rec'') = None"
  using save_load_unguarded [of "\<lparr>files = (\<lambda>p. Some (JsonDoc (JInt 7))), writable = (\<lambda>p. True)\<rparr>"
      "''a.rec''" "JInt 7" "RecorderPlayer_init\<lparr>playing := True, recording := True\<rparr>"]
  by (simp add: RecorderPlayer_init_def)

section \<open>The suppression gate is sound\<close>

text \<open>
  Claim C7. \<^verbatim>\<open>is_suppressed()\<close> holds exactly when the counter is positive. From a
  counter that is not negative, the body of a scope runs with \<^verbatim>\<open>is_suppressed()\<close>
  true, and when the scope is left the counter has the value it had before, is not
  negative, and an exception of the body passes through with the counter restored. A
  scope around a balanced body is balanced, so scopes nest, the inner body runs
  suppressed too, and two nested scopes entered at zero end at zero with
  \<^verbatim>\<open>is_suppressed()\<close> false. Performing any event is balanced, and every controller
  call it makes is made while \<^verbatim>\<open>is_suppressed()\<close> holds. In every state a session
  reaches between two operations the counter is not negative and \<^verbatim>\<open>is_suppressed()\<close>
  is false.
\<close>

theorem suppression_gate:
  assumes "0 \<le> suppress_count s" and "balanced body"
  shows "is_suppressed s = (0 < suppress_count s) \<and>
         is_suppressed (suppress_enter s) \<and>
         suppress_count (snd (suppress_events body s)) = suppress_count s \<and>
         0 \<le> suppress_count (snd (suppress_events body s)) \<and>
         suppress_events (raise e) s = (Inl e, s) \<and>
         balanced (suppress_events body) \<and>
         is_suppressed (suppress_enter (suppress_enter s)) \<and>
         (suppress_count s = 0 \<longrightarrow>
            \<not> is_suppressed (snd (suppress_events (suppress_events body) s))) \<and>
         balanced (perform_event P ev) \<and>
         suppressed_calls s (snd (perform_event P ev s)) \<and>
         (reachable t \<longrightarrow> 0 \<le> suppress_count t \<and> \<not> is_suppressed t)"
proof -
  have bal: "balanced (suppress_events m)" if "balanced m" for m :: "'a comp"
    unfolding balanced_def
  proof
    fix t
    obtain r t1 where b: "m (suppress_enter t) = (r, t1)" by (cases "m (suppress_enter t)")
    have "suppress_count t1 = suppress_count (suppress_enter t)"
      using that b by (auto simp: balanced_def dest: spec[where x="suppress_enter t"])
    then show "suppress_count (snd (suppress_events m t)) = suppress_count t"
      using b by (simp add: suppress_events_def suppress_enter_def suppress_exit_def)
  qed
  have b1: "balanced (suppress_events body)" using bal assms(2) .
  have b2: "balanced (suppress_events (suppress_events body))" using bal b1 .
  have c1: "suppress_count (snd (suppress_events body s)) = suppress_count s"
    using b1 by (simp add: balanced_def)
  have c2: "suppress_count (snd (suppress_events (suppress_events body) s)) = suppress_count s"
    using b2 by (simp add: balanced_def)
  have r: "suppress_events (raise e) s = (Inl e, s)"
    by (simp add: suppress_events_def raise_def suppress_enter_def suppress_exit_def)
  have inv: "reachable t \<longrightarrow> 0 \<le> suppress_count t \<and> \<not> is_suppressed t"
    using reachable_inv[of t] by (simp add: is_suppressed_def)
  show ?thesis
    using assms(1) b1 c1 c2 r balanced_frame[OF frame_perform_event, of P ev]
      scopedD[OF scoped_perform_event assms(1), of P ev] inv
    by (simp add: is_suppressed_def suppress_enter_def)
qed

theorem suppression_gate_witness:
  "0 \<le> suppress_count RecorderPlayer_init \<and> balanced (ctrl example_platform (MousePress (Button ''left''))) \<and>
   \<not> is_suppressed RecorderPlayer_init \<and>
   is_suppressed (suppress_enter RecorderPlayer_init) \<and>
   suppress_count (snd (suppress_events (ctrl example_platform (MousePress (Button ''left''))) RecorderPlayer_init)) = 0 \<and>
   suppress_events (raise ControllerError) RecorderPlayer_init = (Inl ControllerError, RecorderPlayer_init) \<and>
   \<not> is_suppressed (snd (suppress_events (suppress_events (ctrl example_platform (MousePress (Button ''left''))))
        RecorderPlayer_init))"
proof -
  have a: "0 \<le> suppress_count RecorderPlayer_init" by (simp add: RecorderPlayer_init_def)
  have b: "balanced (ctrl example_platform (MousePress (Button ''left'')))" by (simp add: balanced_def ctrl_def)
  have z: "suppress_count RecorderPlayer_init = 0" by (simp add: RecorderPlayer_init_def)
  show ?thesis
    using a b z suppression_gate [OF a b, of ControllerError]
    by simp
qed

section \<open>Records are performed as they were captured\<close>





















section \<open>Names that do not resolve\<close>




section \<open>Records of unknown shape\<close>




section \<open>The playback thread keeps the schedule\<close>













section \<open>The playback thread ends when time passes\<close>







section \<open>Repeating without end\<close>




section \<open>How often the log is played\<close>







lemma cancelled_run:
  "target cancelling_env example_platform 0 0 probe_init example_session =
     Some (Returned,
       \<lparr>n_clock = 2, n_stop = 3, fired = [(encode (MouseMove 0 10 10), 1 / 4)], sleeps = []\<rparr>,
       example_session\<lparr>playing := False, ctrl_calls := [(SetPosition (JInt 10) (JInt 10), True)]\<rparr>)"
  by code_simp




section \<open>The schedule of a whole run\<close>









section \<open>The playing flag is always cleared\<close>

lemma finished_run:
  "target example_env example_platform 1 0 probe_init example_session =
     Some (Finished,
       \<lparr>n_clock = 3, n_stop = 4,
         fired = [(encode (MouseMove 0 10 10), 1 / 4),
                  (encode (KeyPress (1 / 2) (CharKey CHR ''a'')), 1 / 2)],
         sleeps = []\<rparr>,
       example_session\<lparr>playing := False,
         ctrl_calls := [(SetPosition (JInt 10) (JInt 10), True), (KbPress (KeyRaw (JStr ''a'')), True)]\<rparr>)"
  by code_simp

lemma raised_run:
  "target example_env example_platform 1 0 probe_init (example_session\<lparr>events := JArr [JStr ''x'']\<rparr>) =
     Some (Raised AttributeError, \<lparr>n_clock = 1, n_stop = 1, fired = [], sleeps = []\<rparr>,
       example_session\<lparr>events := JArr [JStr ''x''], playing := False\<rparr>)"
  by code_simp

text \<open>
  Claim C6. However the playback thread ends, by the end of its loop, by \<^verbatim>\<open>return\<close>
  on cancellation or by an exception, the playing flag is cleared. \<^verbatim>\<open>stop_play\<close>
  always leaves the playing flag and the cancellation signal cleared, and on a
  reachable session that is not playing it changes nothing.
\<close>

theorem never_stuck_playing:
  "(target E P n iv pr s = Some (x, pr', s') \<longrightarrow> \<not> playing s') \<and>
   \<not> playing (stop_play on_play_thread joined s) \<and>
   \<not> stop_play_event (stop_play on_play_thread joined s) \<and>
   (reachable s \<and> \<not> playing s \<longrightarrow> stop_play on_play_thread joined s = s)"
proof -
  have a: "target E P n iv pr s = Some (x, pr', s') \<longrightarrow> \<not> playing s'"
    by (auto simp: target_def split: option.splits)
  have b: "\<not> playing (stop_play on_play_thread joined s) \<and>
           \<not> stop_play_event (stop_play on_play_thread joined s)"
    by (simp add: stop_play_def join_thread_def Let_def)
  have c: "stop_play on_play_thread joined s = s" if "reachable s" "\<not> playing s"
    using reachable_inv[OF that(1)] that(2)
    by (simp add: stop_play_def join_thread_def Let_def)
  show ?thesis using a b c by blast
qed

theorem never_stuck_playing_witness:
  "playing example_session \<and>
   target example_env example_platform 1 0 probe_init example_session =
     Some (Finished,
       \<lparr>n_clock = 3, n_stop = 4,
         fired = [(encode (MouseMove 0 10 10), 1 / 4),
                  (encode (KeyPress (1 / 2) (CharKey CHR ''a'')), 1 / 2)],
         sleeps = []\<rparr>,
       example_session\<lparr>playing := False,
         ctrl_calls := [(SetPosition (JInt 10) (JInt 10), True), (KbPress (KeyRaw (JStr ''a'')), True)]\<rparr>) \<and>
   target cancelling_env example_platform 0 0 probe_init example_session =
     Some (Returned,
       \<lparr>n_clock = 2, n_stop = 3, fired = [(encode (MouseMove 0 10 10), 1 / 4)], sleeps = []\<rparr>,
       example_session\<lparr>playing := False, ctrl_calls := [(SetPosition (JInt 10) (JInt 10), True)]\<rparr>) \<and>
   target example_env example_platform 1 0 probe_init (example_session\<lparr>events := JArr [JStr ''x'']\<rparr>) =
     Some (Raised AttributeError, \<lparr>n_clock = 1, n_stop = 1, fired = [], sleeps = []\<rparr>,
       example_session\<lparr>events := JArr [JStr ''x''], playing := False\<rparr>) \<and>
   \<not> playing (example_session\<lparr>playing := False,
         ctrl_calls := [(SetPosition (JInt 10) (JInt 10), True), (KbPress (KeyRaw (JStr ''a'')), True)]\<rparr>) \<and>
   \<not> playing (stop_play False False example_session) \<and>
   \<not> stop_play_event (stop_play False False example_session) \<and>
   reachable RecorderPlayer_init \<and> \<not> playing RecorderPlayer_init \<and>
   stop_play False True RecorderPlayer_init = RecorderPlayer_init"
proof -
  have p: "playing example_session" by (simp add: example_session_def)
  have r: "reachable RecorderPlayer_init" by (rule reachable.init)
  have np: "\<not> playing RecorderPlayer_init" by (simp add: RecorderPlayer_init_def)
  show ?thesis
    using p r np finished_run cancelled_run raised_run
      never_stuck_playing [of example_env example_platform 1 0 probe_init example_session Finished
        "\<lparr>n_clock = 3, n_stop = 4,
         fired = [(encode (MouseMove 0 10 10), 1 / 4),
                  (encode (KeyPress (1 / 2) (CharKey CHR ''a'')), 1 / 2)],
         sleeps = []\<rparr>"
        "example_session\<lparr>playing := False,
         ctrl_calls := [(SetPosition (JInt 10) (JInt 10), True), (KbPress (KeyRaw (JStr ''a'')), True)]\<rparr>"
        False False]
      never_stuck_playing [of example_env example_platform 1 0 probe_init RecorderPlayer_init Finished
        probe_init RecorderPlayer_init False True]
    by simp
qed

end
